theory Spec2Isabelle
  imports Complex_Main "HOL-Library.Multiset"
begin

section \<open>JavaScript values\<close>

text \<open>
  The extraction code of \<^verbatim>\<open>electron/lib/lazer-database.ts\<close> reads optional properties,
  uses optional chaining and interpolates possibly missing values into template strings.
  A value is therefore \<open>undefined\<close>, \<open>null\<close> or a proper value.
\<close>

datatype 'a js = Undefined | Null | Val 'a

text \<open>
  A property the Realm schema declares optional (\<^verbatim>\<open>"string?"\<close>) reads as \<open>null\<close> when it
  holds nothing, and as its value otherwise.
\<close>

definition fromRealm :: "'a option \<Rightarrow> 'a js" where
  "fromRealm v = (case v of None \<Rightarrow> Null | Some x \<Rightarrow> Val x)"

text \<open>
  The loose equality \<^verbatim>\<open>==\<close> on values that are strings, \<open>null\<close> or \<open>undefined\<close>:
  \<open>null\<close> and \<open>undefined\<close> are equal to each other and to nothing else.
\<close>

definition looseEq :: "string js \<Rightarrow> string js \<Rightarrow> bool" where
  "looseEq a b =
     (case a of
        Val x \<Rightarrow> (case b of Val y \<Rightarrow> x = y | Null \<Rightarrow> False | Undefined \<Rightarrow> False)
      | Null \<Rightarrow> (case b of Val y \<Rightarrow> False | Null \<Rightarrow> True | Undefined \<Rightarrow> True)
      | Undefined \<Rightarrow> (case b of Val y \<Rightarrow> False | Null \<Rightarrow> True | Undefined \<Rightarrow> True))"

text \<open>Optional chaining \<^verbatim>\<open>x?.f\<close>: \<open>undefined\<close> when \<open>x\<close> is \<open>null\<close> or \<open>undefined\<close>.\<close>

definition optChain :: "'a js \<Rightarrow> ('a \<Rightarrow> 'b js) \<Rightarrow> 'b js" where
  "optChain x f = (case x of Val v \<Rightarrow> f v | Null \<Rightarrow> Undefined | Undefined \<Rightarrow> Undefined)"

text \<open>\<^verbatim>\<open>s.substring(a, b)\<close> on indices that are natural numbers.\<close>

definition substring :: "string \<Rightarrow> nat \<Rightarrow> nat \<Rightarrow> string" where
  "substring s a b = (let lo = min a b; hi = max a b in take (hi - lo) (drop lo s))"

text \<open>A value interpolated into a template string, or appended to a string with \<^verbatim>\<open>+\<close>.\<close>

definition templateStr :: "string js \<Rightarrow> string" where
  "templateStr x = (case x of Undefined \<Rightarrow> ''undefined'' | Null \<Rightarrow> ''null'' | Val s \<Rightarrow> s)"

text \<open>A non-negative integer counter interpolated into a template string: decimal digits.\<close>

fun string_of_nat :: "nat \<Rightarrow> string" where
  "string_of_nat n =
     (if n < 10 then [''0123456789'' ! n]
      else string_of_nat (n div 10) @ [''0123456789'' ! (n mod 10)])"

declare string_of_nat.simps [simp del]

text \<open>\<^verbatim>\<open>p.replace(/\\/g, "/")\<close>: every backslash becomes a forward slash.\<close>

definition replaceBackslashes :: "string \<Rightarrow> string" where
  "replaceBackslashes p = map (\<lambda>c. if c = CHR 0x5C then CHR ''/'' else c) p"

text \<open>\<^verbatim>\<open>xs[0]\<close> on an array: \<open>undefined\<close> when the array is empty.\<close>

definition at0 :: "'a list \<Rightarrow> 'a js" where
  "at0 xs = (case xs of [] \<Rightarrow> Undefined | x # _ \<Rightarrow> Val x)"

section \<open>The record model\<close>

text \<open>
  The classes of the schema that the extraction reads, with the properties it reads.
  Nullability follows the schema: \<^verbatim>\<open>"string?"\<close> is an optional string, \<^verbatim>\<open>"double"\<close> and
  \<^verbatim>\<open>"int"\<close> are required numbers, and the links \<open>Metadata\<close> and \<open>File\<close> are taken as
  present, as the class declarations type them.
\<close>

record File =
  Hash :: "string option"

record RealmNamedFileUsage =
  File :: File
  Filename :: "string option"

record BeatmapMetadata =
  Title :: "string option"
  TitleUnicode :: "string option"
  Artist :: "string option"
  ArtistUnicode :: "string option"
  Tags :: "string option"
  AudioFile :: "string option"
  BackgroundFile :: "string option"

record Beatmap =
  Metadata :: BeatmapMetadata
  Length :: real
  BPM :: real

record BeatmapSet =
  Beatmaps :: "Beatmap list"
  OnlineID :: int
  Hash :: "string option"
  Files :: "RealmNamedFileUsage list"

text \<open>The output type \<open>OsuBeatmapData\<close>.\<close>

record OsuBeatmapData =
  id' :: int
  artist :: "string js"
  artist_unicode :: "string js"
  title :: "string js"
  title_unicode :: "string js"
  hash :: "string js"
  audio :: "string js"
  audio_hash :: "string js"
  audio_path :: "string js"
  background :: "string js"
  background_hash :: "string js"
  background_path :: "string js"
  tags :: "string js"
  total_time :: "real js"
  bpm :: "real js"

section \<open>The collaborators\<close>

text \<open>
  A Realm connection: the stored beatmap sets in storage order, and whether the connection
  has been closed. Reading a closed Realm throws inside the library.
\<close>

record Realm =
  isClosed :: bool
  beatmapSets :: "BeatmapSet list"

datatype Exn = Error string | RealmError string

definition notConnected :: Exn where
  "notConnected = Error ''You should open connection at first.''"

definition realmClosed :: Exn where
  "realmClosed = RealmError ''Cannot access realm that has been closed.''"

text \<open>\<^verbatim>\<open>connection.objects(BeatmapSet)\<close>.\<close>

definition objects :: "Realm \<Rightarrow> Exn + BeatmapSet list" where
  "objects r = (if isClosed r then Inl realmClosed else Inr (beatmapSets r))"

text \<open>
  \<^verbatim>\<open>connection.objects(type)\<close> for a type given by name. Only the beatmap sets are
  modelled; the result for another type names the type and nothing more.
\<close>

datatype Results = BeatmapSetResults "BeatmapSet list" | OtherResults string

definition objectsNamed :: "Realm \<Rightarrow> string \<Rightarrow> Exn + Results" where
  "objectsNamed r ty =
     (if isClosed r then Inl realmClosed
      else if ty = ''BeatmapSet'' then Inr (BeatmapSetResults (beatmapSets r))
      else Inr (OtherResults ty))"

text \<open>
  What the code takes from the platform: the application-data directory
  (\<^verbatim>\<open>app.getPath("appData")\<close>), \<^verbatim>\<open>join\<close> of \<^verbatim>\<open>node:path\<close>, the search
  \<^verbatim>\<open>glob.glob(pattern, { absolute: true })\<close> over the file system, and \<^verbatim>\<open>Realm.open\<close>
  with the fixed schema and schema version.
\<close>

record Env =
  appData :: string
  join :: "string list \<Rightarrow> string"
  glob :: "string \<Rightarrow> string list"
  realmOpen :: "string \<Rightarrow> Exn + Realm"

datatype BrowserWindow = BrowserWindow nat

text \<open>The observable effects, in the order the code performs them.\<close>

datatype Event =
    ConsoleLog string
  | IpcSend BrowserWindow string string
  | GlobCall string

section \<open>The class OsuLazerDatabase\<close>

record OsuLazerDatabase =
  connection :: "Realm option"
  window :: "BrowserWindow option"

definition constructor :: "BrowserWindow option \<Rightarrow> OsuLazerDatabase" where
  "constructor w = \<lparr> connection = None, window = w \<rparr>"

definition sendDebugData :: "OsuLazerDatabase \<Rightarrow> string \<Rightarrow> Event list" where
  "sendDebugData db data =
     (case window db of
        Some w \<Rightarrow> [IpcSend w ''debug-data'' data]
      | None \<Rightarrow> [])"

definition open' :: "Env \<Rightarrow> string \<Rightarrow> BrowserWindow option \<Rightarrow> (Exn + OsuLazerDatabase) \<times> Event list" where
  "open' env path w =
     (let db = constructor w;
          before = [ConsoleLog ''Try to connect realm db...'']
                   @ sendDebugData db ''Try to connect realm db...''
      in case realmOpen env path of
           Inl e \<Rightarrow> (Inl e, before)
         | Inr r \<Rightarrow> (Inr (db\<lparr>connection := Some r\<rparr>),
                      before @ [ConsoleLog ''Connected to realm db.'']))"

definition getConnection :: "OsuLazerDatabase \<Rightarrow> Realm option" where
  "getConnection db = connection db"

definition getObjects :: "OsuLazerDatabase \<Rightarrow> string \<Rightarrow> Exn + Results" where
  "getObjects db ty =
     (case connection db of
        Some c \<Rightarrow> objectsNamed c ty
      | None \<Rightarrow> Inl notConnected)"

text \<open>
  The search pattern of lines 76-83 and 93-100, the same template for the audio and the
  background hash.
\<close>

definition shardPattern :: "Env \<Rightarrow> string js \<Rightarrow> string" where
  "shardPattern env h =
     join env [appData env, ''osu'', ''files'']
       @ ''/'' @ templateStr (optChain h (\<lambda>s. Val (substring s 0 1)))
       @ ''/'' @ templateStr (optChain h (\<lambda>s. Val (substring s 0 2)))
       @ ''/'' @ templateStr h"

text \<open>
  The search of lines 74-86 and 91-103: the glob call that is issued, and the paths it
  yields after the separators are replaced.
\<close>

definition globPaths :: "Env \<Rightarrow> string js \<Rightarrow> Event list \<times> string list" where
  "globPaths env h =
     (let pattern = shardPattern env h
      in ([GlobCall pattern], map replaceBackslashes (glob env pattern)))"

text \<open>\<^verbatim>\<open>files.find((f) => f.Filename == name)?.File.Hash\<close>.\<close>

definition findHash :: "RealmNamedFileUsage list \<Rightarrow> string js \<Rightarrow> string js" where
  "findHash files name =
     optChain
       (case find (\<lambda>f. looseEq (fromRealm (Filename f)) name) files of
          None \<Rightarrow> Undefined
        | Some f \<Rightarrow> Val f)
       (\<lambda>f. fromRealm (File.Hash (File f)))"

text \<open>The body of the loop up to the construction of \<open>extracted\<close> (lines 68-121).\<close>

definition extractSet :: "Env \<Rightarrow> BeatmapSet \<Rightarrow> OsuBeatmapData \<times> Event list" where
  "extractSet env set' =
     (let first = at0 (Beatmaps set');
          files = Files set';
          audioHash = findHash files (optChain first (\<lambda>b. fromRealm (AudioFile (Metadata b))));
          (audioGlob, audioPaths) = globPaths env audioHash;
          backgroundHash =
            findHash files (optChain first (\<lambda>b. fromRealm (BackgroundFile (Metadata b))));
          (backgroundGlob, backgroundPaths) = globPaths env backgroundHash
      in (\<lparr> id' = OnlineID set',
            artist = optChain first (\<lambda>b. fromRealm (Artist (Metadata b))),
            artist_unicode = optChain first (\<lambda>b. fromRealm (ArtistUnicode (Metadata b))),
            title = optChain first (\<lambda>b. fromRealm (Title (Metadata b))),
            title_unicode = optChain first (\<lambda>b. fromRealm (TitleUnicode (Metadata b))),
            hash = fromRealm (BeatmapSet.Hash set'),
            audio = optChain first (\<lambda>b. fromRealm (AudioFile (Metadata b))),
            audio_hash = audioHash,
            audio_path = at0 audioPaths,
            background = optChain first (\<lambda>b. fromRealm (BackgroundFile (Metadata b))),
            background_hash = backgroundHash,
            background_path = at0 backgroundPaths,
            tags = optChain first (\<lambda>b. fromRealm (Tags (Metadata b))),
            total_time = optChain first (\<lambda>b. Val (Length b)),
            bpm = optChain first (\<lambda>b. Val (BPM b)) \<rparr>,
          audioGlob @ backgroundGlob))"

text \<open>The text of the progress notification of line 126.\<close>

definition loadingText :: "string js \<Rightarrow> nat \<Rightarrow> nat \<Rightarrow> string" where
  "loadingText t counter setCount =
     ''Loading: '' @ templateStr t @ '' ('' @ string_of_nat counter @ '' / ''
       @ string_of_nat setCount @ '')''"

text \<open>
  The loop of lines 67-131 over the sets that remain, with the running counter and the
  array \<open>data\<close> built so far; \<open>setCount\<close> is the number of stored sets, which line 126 reads
  from the connection.
\<close>

fun forOf ::
  "Env \<Rightarrow> OsuLazerDatabase \<Rightarrow> nat \<Rightarrow> BeatmapSet list \<Rightarrow> nat \<Rightarrow> OsuBeatmapData list
     \<Rightarrow> OsuBeatmapData list \<times> Event list" where
  "forOf env db setCount [] counter data = (data, [])"
| "forOf env db setCount (set' # rest) counter data =
     (let (extracted, globs) = extractSet env set';
          counter' = counter + 1;
          progress =
            (if counter' mod 50 = 0
             then sendDebugData db (loadingText (title extracted) counter' setCount)
             else []);
          logged = [ConsoleLog (''Loaded: '' @ templateStr (title extracted))];
          (result, later) = forOf env db setCount rest counter' (data @ [extracted])
      in (result, globs @ progress @ logged @ later))"

definition getAsBeatmapData ::
  "Env \<Rightarrow> OsuLazerDatabase \<Rightarrow> (Exn + OsuBeatmapData list) \<times> Event list" where
  "getAsBeatmapData env db =
     (case connection db of
        Some c \<Rightarrow>
          (case objects c of
             Inl e \<Rightarrow> (Inl e, [])
           | Inr sets \<Rightarrow>
               (let (data, events) = forOf env db (length sets) sets 0 []
                in (Inr data, events @ sendDebugData db ''Data loaded.'')))
      | None \<Rightarrow> (Inl notConnected, []))"

text \<open>\<^verbatim>\<open>close()\<close> closes the Realm the field refers to and leaves the field as it is.\<close>

definition close :: "OsuLazerDatabase \<Rightarrow> OsuLazerDatabase" where
  "close db =
     (case connection db of
        Some c \<Rightarrow> db\<lparr>connection := Some (c\<lparr>isClosed := True\<rparr>)\<rparr>
      | None \<Rightarrow> db)"

section \<open>Reading the trace\<close>

text \<open>The data of the notifications sent on the channel \<open>debug-data\<close>, in order.\<close>

fun debugData :: "Event list \<Rightarrow> string list" where
  "debugData [] = []"
| "debugData (IpcSend w ch d # es) =
     (if ch = ''debug-data'' then d # debugData es else debugData es)"
| "debugData (ConsoleLog s # es) = debugData es"
| "debugData (GlobCall p # es) = debugData es"

text \<open>The patterns of the file-system searches issued, in order.\<close>

fun globCalls :: "Event list \<Rightarrow> string list" where
  "globCalls [] = []"
| "globCalls (GlobCall p # es) = p # globCalls es"
| "globCalls (ConsoleLog s # es) = globCalls es"
| "globCalls (IpcSend w ch d # es) = globCalls es"

section \<open>Example stores\<close>

text \<open>
  Concrete collaborators and stores on which the theorems below are instantiated.
  \<open>joinPosix\<close> stands for \<^verbatim>\<open>join\<close> on segments that need no normalisation.
\<close>

fun joinPosix :: "string list \<Rightarrow> string" where
  "joinPosix [] = ''.''"
| "joinPosix [p] = p"
| "joinPosix (p # q # ps) = p @ ''/'' @ joinPosix (q # ps)"

definition exampleRealm :: Realm where
  "exampleRealm = \<lparr> isClosed = False, beatmapSets = [] \<rparr>"

definition exampleEnv :: Env where
  "exampleEnv =
     \<lparr> appData = ''/home/user/.config'',
       join = joinPosix,
       glob = (\<lambda>p. if p = ''/home/user/.config/osu/files/d/de/deadbeef'' then [p] else []),
       realmOpen = (\<lambda>path. Inr exampleRealm) \<rparr>"

definition strayEnv :: Env where
  "strayEnv =
     \<lparr> appData = ''/home/user/.config'',
       join = joinPosix,
       glob = (\<lambda>p. if p = ''/home/user/.config/osu/files/undefined/undefined/undefined''
                   then [p] else []),
       realmOpen = (\<lambda>path. Inr exampleRealm) \<rparr>"

definition trackMetadata :: BeatmapMetadata where
  "trackMetadata =
     \<lparr> Title = Some ''Song'', TitleUnicode = Some ''Song'', Artist = Some ''Band'',
       ArtistUnicode = None, Tags = Some ''fast'', AudioFile = Some ''track.mp3'',
       BackgroundFile = Some ''bg.jpg'' \<rparr>"

definition trackBeatmap :: Beatmap where
  "trackBeatmap = \<lparr> Metadata = trackMetadata, Length = 180.5, BPM = 174 \<rparr>"

definition trackSet :: BeatmapSet where
  "trackSet =
     \<lparr> Beatmaps = [trackBeatmap], OnlineID = 42, Hash = Some ''abc'',
       Files = [\<lparr> File = \<lparr> File.Hash = Some ''deadbeef'' \<rparr>, Filename = Some ''track.mp3'' \<rparr>,
                \<lparr> File = \<lparr> File.Hash = Some ''f00dface'' \<rparr>, Filename = Some ''bg.jpg'' \<rparr>] \<rparr>"

definition trackDb :: OsuLazerDatabase where
  "trackDb = \<lparr> connection = Some \<lparr> isClosed = False, beatmapSets = [trackSet] \<rparr>,
               window = None \<rparr>"

definition gapSet :: BeatmapSet where
  "gapSet = \<lparr> Beatmaps = [], OnlineID = 7, Hash = None, Files = [] \<rparr>"

definition gapDb :: OsuLazerDatabase where
  "gapDb = \<lparr> connection = Some \<lparr> isClosed = False, beatmapSets = [gapSet] \<rparr>,
             window = None \<rparr>"

definition openedDb :: OsuLazerDatabase where
  "openedDb = \<lparr> connection = Some exampleRealm, window = None \<rparr>"

text \<open>Whether an event is a message sent to the window.\<close>

fun isIpcSend :: "Event \<Rightarrow> bool" where
  "isIpcSend (IpcSend w ch d) = True"
| "isIpcSend (ConsoleLog s) = False"
| "isIpcSend (GlobCall p) = False"

definition otherMetadata :: BeatmapMetadata where
  "otherMetadata =
     \<lparr> Title = Some ''Other'', TitleUnicode = None, Artist = Some ''Choir'',
       ArtistUnicode = Some ''Choir'', Tags = None, AudioFile = Some ''other.ogg'',
       BackgroundFile = None \<rparr>"

definition otherBeatmap :: Beatmap where
  "otherBeatmap = \<lparr> Metadata = otherMetadata, Length = 95, BPM = 120 \<rparr>"

definition duoSet :: BeatmapSet where
  "duoSet =
     \<lparr> Beatmaps = [trackBeatmap, otherBeatmap], OnlineID = 43, Hash = Some ''def'',
       Files = [\<lparr> File = \<lparr> File.Hash = Some ''deadbeef'' \<rparr>, Filename = Some ''track.mp3'' \<rparr>,
                \<lparr> File = \<lparr> File.Hash = Some ''0a1b2c'' \<rparr>, Filename = Some ''other.ogg'' \<rparr>] \<rparr>"

definition duoDb :: OsuLazerDatabase where
  "duoDb = \<lparr> connection = Some \<lparr> isClosed = False, beatmapSets = [gapSet, duoSet] \<rparr>,
             window = None \<rparr>"

definition orderDb :: OsuLazerDatabase where
  "orderDb = \<lparr> connection = Some \<lparr> isClosed = False, beatmapSets = [duoSet, trackSet] \<rparr>,
               window = None \<rparr>"

definition swappedDb :: OsuLazerDatabase where
  "swappedDb =
     \<lparr> connection =
         Some \<lparr> isClosed = False,
                beatmapSets = [duoSet\<lparr>Beatmaps := [otherBeatmap, trackBeatmap]\<rparr>,
                               trackSet\<lparr>Files := rev (Files trackSet)\<rparr>] \<rparr>,
       window = None \<rparr>"

text \<open>
  A platform whose search reports its matches with backslash separators.
\<close>

definition winEnv :: Env where
  "winEnv =
     \<lparr> appData = ''C:/Users/user/AppData/Roaming'',
       join = joinPosix,
       glob = (\<lambda>p. if p = ''C:/Users/user/AppData/Roaming/osu/files/d/de/deadbeef''
                   then [map (\<lambda>c. if c = CHR ''/'' then CHR 0x5C else c) p] else []),
       realmOpen = (\<lambda>path. Inr exampleRealm) \<rparr>"

definition fiftyDb :: OsuLazerDatabase where
  "fiftyDb = \<lparr> connection = Some \<lparr> isClosed = False, beatmapSets = replicate 50 gapSet \<rparr>,
               window = Some (BrowserWindow 1) \<rparr>"

section \<open>Facts about the model\<close>

subsection \<open>The loop body\<close>

lemma extractSet_events:
  "snd (extractSet env s) =
     [GlobCall (shardPattern env (audio_hash (fst (extractSet env s)))),
      GlobCall (shardPattern env (background_hash (fst (extractSet env s))))]"
  by (simp add: extractSet_def globPaths_def Let_def)

lemma extractSet_first:
  assumes "Beatmaps s = b # others"
  shows "artist (fst (extractSet env s)) = fromRealm (Artist (Metadata b))"
    and "artist_unicode (fst (extractSet env s)) = fromRealm (ArtistUnicode (Metadata b))"
    and "title (fst (extractSet env s)) = fromRealm (Title (Metadata b))"
    and "title_unicode (fst (extractSet env s)) = fromRealm (TitleUnicode (Metadata b))"
    and "tags (fst (extractSet env s)) = fromRealm (Tags (Metadata b))"
    and "total_time (fst (extractSet env s)) = Val (Length b)"
    and "bpm (fst (extractSet env s)) = Val (BPM b)"
    and "audio (fst (extractSet env s)) = fromRealm (AudioFile (Metadata b))"
    and "background (fst (extractSet env s)) = fromRealm (BackgroundFile (Metadata b))"
  using assms by (simp_all add: extractSet_def Let_def case_prod_beta at0_def optChain_def)

lemma extractSet_empty:
  assumes "Beatmaps s = []"
  shows "artist (fst (extractSet env s)) = Undefined"
    and "artist_unicode (fst (extractSet env s)) = Undefined"
    and "title (fst (extractSet env s)) = Undefined"
    and "title_unicode (fst (extractSet env s)) = Undefined"
    and "tags (fst (extractSet env s)) = Undefined"
    and "total_time (fst (extractSet env s)) = Undefined"
    and "bpm (fst (extractSet env s)) = Undefined"
    and "audio (fst (extractSet env s)) = Undefined"
    and "background (fst (extractSet env s)) = Undefined"
  using assms by (simp_all add: extractSet_def Let_def case_prod_beta at0_def optChain_def)

lemma extractSet_set_level:
  "id' (fst (extractSet env s)) = OnlineID s"
  "hash (fst (extractSet env s)) = fromRealm (BeatmapSet.Hash s)"
  by (simp_all add: extractSet_def Let_def case_prod_beta)

lemma extractSet_hashes:
  "audio_hash (fst (extractSet env s))
     = findHash (Files s) (optChain (at0 (Beatmaps s)) (\<lambda>b. fromRealm (AudioFile (Metadata b))))"
  "background_hash (fst (extractSet env s))
     = findHash (Files s) (optChain (at0 (Beatmaps s)) (\<lambda>b. fromRealm (BackgroundFile (Metadata b))))"
  by (simp_all add: extractSet_def Let_def case_prod_beta)

lemma extractSet_paths:
  "audio_path (fst (extractSet env s))
     = at0 (snd (globPaths env (audio_hash (fst (extractSet env s)))))"
  "background_path (fst (extractSet env s))
     = at0 (snd (globPaths env (background_hash (fst (extractSet env s)))))"
  by (simp_all add: extractSet_def Let_def case_prod_beta)

lemma findHash_none:
  "\<forall>f \<in> set files. \<not> looseEq (fromRealm (Filename f)) name \<Longrightarrow> findHash files name = Undefined"
proof -
  assume "\<forall>f \<in> set files. \<not> looseEq (fromRealm (Filename f)) name"
  then have "find (\<lambda>f. looseEq (fromRealm (Filename f)) name) files = None"
    by (simp add: find_None_iff)
  then show ?thesis
    by (simp add: findHash_def optChain_def)
qed

subsection \<open>The search\<close>

lemma shardPattern_Val:
  "shardPattern env (Val h) =
     join env [appData env, ''osu'', ''files''] @ ''/'' @ take 1 h @ ''/'' @ take 2 h @ ''/'' @ h"
  by (simp add: shardPattern_def optChain_def templateStr_def substring_def)

lemma shardPattern_Undefined:
  "shardPattern env Undefined =
     join env [appData env, ''osu'', ''files''] @ ''/undefined/undefined/undefined''"
  by (simp add: shardPattern_def optChain_def templateStr_def)

lemma replaceBackslashes_free: "CHR 0x5C \<notin> set (replaceBackslashes p)"
  by (induction p) (simp_all add: replaceBackslashes_def)

lemma replaceBackslashes_id: "CHR 0x5C \<notin> set p \<Longrightarrow> replaceBackslashes p = p"
  by (induction p) (auto simp: replaceBackslashes_def)

lemma globPaths_Undefined_empty:
  "glob env (join env [appData env, ''osu'', ''files''] @ ''/undefined/undefined/undefined'') = []
   \<Longrightarrow> at0 (snd (globPaths env Undefined)) = Undefined"
  by (simp add: globPaths_def Let_def shardPattern_Undefined at0_def)

subsection \<open>The loop and the pass\<close>

lemma forOf_data:
  "fst (forOf env db n sets k data) = data @ map (\<lambda>s. fst (extractSet env s)) sets"
  by (induction sets arbitrary: k data) (simp_all add: Let_def case_prod_beta)

lemma getAsBeatmapData_data:
  "connection db = Some c \<Longrightarrow> \<not> isClosed c \<Longrightarrow>
   fst (getAsBeatmapData env db) = Inr (map (\<lambda>s. fst (extractSet env s)) (beatmapSets c))"
  by (simp add: getAsBeatmapData_def objects_def case_prod_beta forOf_data)

lemma map_list_all2:
  "list_all2 P xs ys \<Longrightarrow> (\<And>x y. P x y \<Longrightarrow> f x = g y) \<Longrightarrow> map f xs = map g ys"
  by (induction rule: list_all2_induct) simp_all

subsection \<open>The messages of a pass\<close>

lemma debugData_append: "debugData (xs @ ys) = debugData xs @ debugData ys"
  by (induction xs rule: debugData.induct) simp_all

lemma debugData_extractSet: "debugData (snd (extractSet env s)) = []"
  by (simp add: extractSet_events)

lemma debugData_sendDebugData:
  "debugData (sendDebugData db d) = (case window db of Some w \<Rightarrow> [d] | None \<Rightarrow> [])"
  by (simp add: sendDebugData_def split: option.splits)

lemma forOf_debugData:
  "window db = Some w \<Longrightarrow>
   debugData (snd (forOf env db n sets k data)) =
     map (\<lambda>j. loadingText (title (fst (extractSet env (sets ! (j - Suc k))))) j n)
       (filter (\<lambda>j. j mod 50 = 0) [Suc k ..< Suc (k + length sets)])"
proof (induction sets arbitrary: k data)
  case Nil
  then show ?case by simp
next
  case (Cons s rest)
  have tl: "map (\<lambda>j. loadingText (title (fst (extractSet env ((s # rest) ! (j - Suc k))))) j n)
              (filter (\<lambda>j. j mod 50 = 0) [Suc (Suc k) ..< Suc (Suc k + length rest)])
          = map (\<lambda>j. loadingText (title (fst (extractSet env (rest ! (j - Suc (Suc k)))))) j n)
              (filter (\<lambda>j. j mod 50 = 0) [Suc (Suc k) ..< Suc (Suc k + length rest)])"
    by (rule map_cong) (auto simp: Suc_diff_le)
  have "[Suc k ..< Suc (Suc k + length rest)]
          = Suc k # [Suc (Suc k) ..< Suc (Suc k + length rest)]"
    by (rule upt_conv_Cons) simp
  then have up: "[Suc k ..< Suc (k + length (s # rest))]
          = Suc k # [Suc (Suc k) ..< Suc (Suc k + length rest)]"
    by simp
  show ?case
    unfolding up
    using Cons.IH [OF Cons.prems, of "Suc k" "data @ [fst (extractSet env s)]"] tl
    by (simp add: Let_def case_prod_beta debugData_append debugData_extractSet
        debugData_sendDebugData Cons.prems)
qed

lemma multiples_of_50:
  "filter (\<lambda>j. j mod 50 = 0) [Suc 0 ..< Suc N] = map (\<lambda>k. 50 * k) [Suc 0 ..< Suc (N div 50)]"
proof (induction N)
  case 0
  then show ?case by simp
next
  case (Suc N)
  show ?case
  proof (cases "Suc N mod 50 = 0")
    case True
    have d: "Suc N div 50 = Suc (N div 50)"
      using True by (simp add: div_Suc)
    from True have "50 dvd Suc N"
      by (simp only: dvd_eq_mod_eq_0)
    then have "50 * (Suc N div 50) = Suc N"
      by (rule dvd_mult_div_cancel)
    then have e: "50 * Suc (N div 50) = Suc N"
      by (simp only: d)
    have "filter (\<lambda>j. j mod 50 = 0) [Suc 0 ..< Suc (Suc N)]
        = filter (\<lambda>j. j mod 50 = 0) [Suc 0 ..< Suc N] @ [Suc N]"
      using True by simp
    also have "\<dots> = map (\<lambda>k. 50 * k) [Suc 0 ..< Suc (N div 50)] @ [50 * Suc (N div 50)]"
      by (simp only: Suc e)
    also have "\<dots> = map (\<lambda>k. 50 * k) [Suc 0 ..< Suc (Suc (N div 50))]"
      by simp
    finally show ?thesis
      by (simp only: d)
  next
    case False
    have d: "Suc N div 50 = N div 50"
      using False by (simp add: div_Suc)
    have "filter (\<lambda>j. j mod 50 = 0) [Suc 0 ..< Suc (Suc N)]
        = filter (\<lambda>j. j mod 50 = 0) [Suc 0 ..< Suc N]"
      using False by simp
    then show ?thesis
      by (simp only: Suc d)
  qed
qed

lemma forOf_no_window:
  "window db = None \<Longrightarrow> filter isIpcSend (snd (forOf env db n sets k data)) = []"
  by (induction sets arbitrary: k data)
     (simp_all add: Let_def case_prod_beta extractSet_events sendDebugData_def)

lemma sendDebugData_sends:
  "window db = Some w \<Longrightarrow>
   filter isIpcSend (sendDebugData db d)
     = map (IpcSend w ''debug-data'') (debugData (sendDebugData db d))"
  by (simp add: sendDebugData_def)

lemma forOf_sends:
  "window db = Some w \<Longrightarrow>
   filter isIpcSend (snd (forOf env db n sets k data))
     = map (IpcSend w ''debug-data'') (debugData (snd (forOf env db n sets k data)))"
  by (induction sets arbitrary: k data)
     (simp_all add: Let_def case_prod_beta extractSet_events sendDebugData_def debugData_append)

lemma string_of_nat_50: "string_of_nat 50 = ''50''"
  by code_simp

section \<open>The connection check\<close>

text \<open>
  Claim C8. On an instance whose connection is still \<open>null\<close> (as the constructor leaves
  it, and as it stays when no Realm was opened), \<open>getAsBeatmapData\<close> and \<open>getObjects\<close>
  fail with the error "You should open connection at first."; the check comes first, so
  nothing is read, no effect is performed and no output sequence is produced.
\<close>

theorem not_connected_error:
  assumes "connection db = None"
  shows "getAsBeatmapData env db = (Inl notConnected, [])
       \<and> getObjects db ty = Inl notConnected"
  using assms by (simp add: getAsBeatmapData_def getObjects_def)

theorem not_connected_error_witness:
  "connection (constructor None) = None
   \<and> getAsBeatmapData exampleEnv (constructor None)
       = (Inl (Error ''You should open connection at first.''), [])
   \<and> getObjects (constructor None) ''BeatmapSet''
       = Inl (Error ''You should open connection at first.'')"
proof -
  have h: "connection (constructor None) = None"
    by (simp add: constructor_def)
  show ?thesis
    using h not_connected_error [OF h, of exampleEnv "''BeatmapSet''"]
    by (simp add: notConnected_def)
qed

text \<open>
  Claim C9. \<open>close()\<close> does not reset the connection field: on an instance with an opened
  connection the field is still non-null after \<open>close()\<close> (it refers to the Realm, now
  closed), so \<open>getAsBeatmapData\<close> and \<open>getObjects\<close> pass the connection check and do not
  raise the "not connected" error; they go on to read the closed Realm, which is where
  the call then fails.
\<close>

theorem close_keeps_connection:
  assumes "connection db = Some c"
  shows "connection (close db) = Some (c\<lparr>isClosed := True\<rparr>)
       \<and> connection (close db) \<noteq> None
       \<and> getAsBeatmapData env (close db) = (Inl realmClosed, [])
       \<and> fst (getAsBeatmapData env (close db)) \<noteq> Inl notConnected
       \<and> getObjects (close db) ty = Inl realmClosed
       \<and> getObjects (close db) ty \<noteq> Inl notConnected"
  using assms
  by (simp add: close_def getAsBeatmapData_def getObjects_def objects_def objectsNamed_def
      realmClosed_def notConnected_def)

theorem close_keeps_connection_witness:
  "connection trackDb = Some \<lparr> isClosed = False, beatmapSets = [trackSet] \<rparr>
   \<and> connection (close trackDb) = Some \<lparr> isClosed = True, beatmapSets = [trackSet] \<rparr>
   \<and> getAsBeatmapData exampleEnv (close trackDb)
       = (Inl (RealmError ''Cannot access realm that has been closed.''), [])
   \<and> getObjects (close trackDb) ''BeatmapSet''
       = Inl (RealmError ''Cannot access realm that has been closed.'')"
proof -
  have h: "connection trackDb = Some \<lparr> isClosed = False, beatmapSets = [trackSet] \<rparr>"
    by (simp add: trackDb_def)
  show ?thesis
    using h close_keeps_connection [OF h, of exampleEnv "''BeatmapSet''"]
    by (simp add: realmClosed_def)
qed

section \<open>Notifications\<close>

text \<open>
  Claim C10. On an instance with a null window (the constructor's default)
  \<open>sendDebugData\<close> does nothing, so a whole extraction pass sends no message to any
  window, neither a progress notification nor the final "Data loaded.", and it returns
  the same complete sequence of records as the same instance with a window attached.
\<close>

theorem null_window_silent:
  assumes "window db = None" and "connection db = Some c" and "\<not> isClosed c"
  shows "sendDebugData db text = []
       \<and> filter isIpcSend (snd (getAsBeatmapData env db)) = []
       \<and> fst (getAsBeatmapData env db) = Inr (map (\<lambda>s. fst (extractSet env s)) (beatmapSets c))
       \<and> fst (getAsBeatmapData env db) = fst (getAsBeatmapData env (db\<lparr>window := Some w\<rparr>))"
proof -
  have a: "sendDebugData db text = []"
    using assms(1) by (simp add: sendDebugData_def)
  have b: "filter isIpcSend (snd (getAsBeatmapData env db)) = []"
    using assms
    by (simp add: getAsBeatmapData_def objects_def case_prod_beta forOf_no_window
        sendDebugData_def)
  have c: "fst (getAsBeatmapData env db) = Inr (map (\<lambda>s. fst (extractSet env s)) (beatmapSets c))"
    using assms(2,3) by (rule getAsBeatmapData_data)
  have d: "fst (getAsBeatmapData env (db\<lparr>window := Some w\<rparr>))
         = Inr (map (\<lambda>s. fst (extractSet env s)) (beatmapSets c))"
    using assms(2,3) by (simp add: getAsBeatmapData_data)
  from a b c d show ?thesis by simp
qed

theorem null_window_silent_witness:
  "window (constructor None) = None
   \<and> window trackDb = None
   \<and> connection trackDb = Some \<lparr> isClosed = False, beatmapSets = [trackSet] \<rparr>
   \<and> sendDebugData trackDb ''Data loaded.'' = []
   \<and> filter isIpcSend (snd (getAsBeatmapData exampleEnv trackDb)) = []
   \<and> fst (getAsBeatmapData exampleEnv trackDb)
       = fst (getAsBeatmapData exampleEnv (trackDb\<lparr>window := Some (BrowserWindow 1)\<rparr>))"
proof -
  have h1: "window trackDb = None"
    by (simp add: trackDb_def)
  have h2: "connection trackDb = Some \<lparr> isClosed = False, beatmapSets = [trackSet] \<rparr>"
    by (simp add: trackDb_def)
  have h3: "\<not> isClosed \<lparr> isClosed = False, beatmapSets = [trackSet] \<rparr>"
    by simp
  show ?thesis
    using h1 h2
      null_window_silent [OF h1 h2 h3, of "''Data loaded.''" exampleEnv "BrowserWindow 1"]
    by (auto simp: constructor_def)
qed

section \<open>What a record is built from\<close>

text \<open>
  Claim C1. For every stored set whose \<open>Beatmaps\<close> collection is non-empty, the record
  the pass produces for it takes its artist, artist_unicode, title, title_unicode, tags,
  total_time and bpm from the first element of that collection (and from that element's
  metadata), whatever the other elements are.
\<close>

theorem primary_beatmap_fields:
  assumes "connection db = Some c" and "\<not> isClosed c"
    and "i < length (beatmapSets c)"
    and "Beatmaps (beatmapSets c ! i) = b # others"
  shows "\<exists>out. fst (getAsBeatmapData env db) = Inr out
           \<and> length out = length (beatmapSets c)
           \<and> artist (out ! i) = fromRealm (Artist (Metadata b))
           \<and> artist_unicode (out ! i) = fromRealm (ArtistUnicode (Metadata b))
           \<and> title (out ! i) = fromRealm (Title (Metadata b))
           \<and> title_unicode (out ! i) = fromRealm (TitleUnicode (Metadata b))
           \<and> tags (out ! i) = fromRealm (Tags (Metadata b))
           \<and> total_time (out ! i) = Val (Length b)
           \<and> bpm (out ! i) = Val (BPM b)"
proof -
  let ?out = "map (\<lambda>s. fst (extractSet env s)) (beatmapSets c)"
  have res: "fst (getAsBeatmapData env db) = Inr ?out"
    using assms(1,2) by (rule getAsBeatmapData_data)
  have at: "?out ! i = fst (extractSet env (beatmapSets c ! i))"
    using assms(3) by simp
  show ?thesis
    using res extractSet_first [OF assms(4), of env]
    by (intro exI [of _ ?out]) (simp only: at length_map simp_thms)
qed

theorem primary_beatmap_fields_witness:
  "connection duoDb = Some \<lparr> isClosed = False, beatmapSets = [gapSet, duoSet] \<rparr>
   \<and> (1::nat) < length [gapSet, duoSet]
   \<and> Beatmaps ([gapSet, duoSet] ! 1) = trackBeatmap # [otherBeatmap]
   \<and> (\<exists>out. fst (getAsBeatmapData exampleEnv duoDb) = Inr out
         \<and> length out = 2
         \<and> artist (out ! 1) = Val ''Band''
         \<and> artist_unicode (out ! 1) = Null
         \<and> title (out ! 1) = Val ''Song''
         \<and> title_unicode (out ! 1) = Val ''Song''
         \<and> tags (out ! 1) = Val ''fast''
         \<and> total_time (out ! 1) = Val 180.5
         \<and> bpm (out ! 1) = Val 174)"
proof -
  let ?c = "\<lparr> isClosed = False, beatmapSets = [gapSet, duoSet] \<rparr>"
  have h1: "connection duoDb = Some ?c"
    by (simp add: duoDb_def)
  have h2: "\<not> isClosed ?c"
    by simp
  have h3: "1 < length (beatmapSets ?c)"
    by simp
  have h4: "Beatmaps (beatmapSets ?c ! 1) = trackBeatmap # [otherBeatmap]"
    by (simp add: duoSet_def)
  from primary_beatmap_fields [OF h1 h2 h3 h4, of exampleEnv]
  obtain out where "fst (getAsBeatmapData exampleEnv duoDb) = Inr out
           \<and> length out = length (beatmapSets ?c)
           \<and> artist (out ! 1) = fromRealm (Artist (Metadata trackBeatmap))
           \<and> artist_unicode (out ! 1) = fromRealm (ArtistUnicode (Metadata trackBeatmap))
           \<and> title (out ! 1) = fromRealm (Title (Metadata trackBeatmap))
           \<and> title_unicode (out ! 1) = fromRealm (TitleUnicode (Metadata trackBeatmap))
           \<and> tags (out ! 1) = fromRealm (Tags (Metadata trackBeatmap))
           \<and> total_time (out ! 1) = Val (Length trackBeatmap)
           \<and> bpm (out ! 1) = Val (BPM trackBeatmap)"
    by blast
  then have "fst (getAsBeatmapData exampleEnv duoDb) = Inr out
         \<and> length out = 2
         \<and> artist (out ! 1) = Val ''Band''
         \<and> artist_unicode (out ! 1) = Null
         \<and> title (out ! 1) = Val ''Song''
         \<and> title_unicode (out ! 1) = Val ''Song''
         \<and> tags (out ! 1) = Val ''fast''
         \<and> total_time (out ! 1) = Val 180.5
         \<and> bpm (out ! 1) = Val 174"
    by (simp add: trackBeatmap_def trackMetadata_def fromRealm_def)
  then have "\<exists>out. fst (getAsBeatmapData exampleEnv duoDb) = Inr out
         \<and> length out = 2
         \<and> artist (out ! 1) = Val ''Band''
         \<and> artist_unicode (out ! 1) = Null
         \<and> title (out ! 1) = Val ''Song''
         \<and> title_unicode (out ! 1) = Val ''Song''
         \<and> tags (out ! 1) = Val ''fast''
         \<and> total_time (out ! 1) = Val 180.5
         \<and> bpm (out ! 1) = Val 174"
    by (intro exI [of _ out])
  moreover have "(1::nat) < length [gapSet, duoSet]"
    by simp
  moreover have "Beatmaps ([gapSet, duoSet] ! 1) = trackBeatmap # [otherBeatmap]"
    by (simp add: duoSet_def)
  ultimately show ?thesis
    using h1 by (intro conjI)
qed

section \<open>Order of the output\<close>

text \<open>
  Claim C6. The returned sequence follows the storage order of the sets: the i-th record
  is the one extracted from the i-th stored set, so the set-level fields (online id and
  hash) appear in storage order; and a store whose sets carry the same \<open>Beatmaps\<close> and
  \<open>Files\<close> in another order yields its set-level records in that same order.
\<close>

theorem output_in_storage_order:
  assumes "connection db = Some c" and "\<not> isClosed c"
    and "connection db' = Some c'" and "\<not> isClosed c'"
    and "list_all2
           (\<lambda>s s'. OnlineID s' = OnlineID s \<and> BeatmapSet.Hash s' = BeatmapSet.Hash s
                    \<and> mset (Beatmaps s') = mset (Beatmaps s)
                    \<and> mset (Files s') = mset (Files s))
           (beatmapSets c) (beatmapSets c')"
  shows "\<exists>out out'. fst (getAsBeatmapData env db) = Inr out
           \<and> fst (getAsBeatmapData env db') = Inr out'
           \<and> out = map (\<lambda>s. fst (extractSet env s)) (beatmapSets c)
           \<and> map (\<lambda>r. (id' r, hash r)) out
               = map (\<lambda>s. (OnlineID s, fromRealm (BeatmapSet.Hash s))) (beatmapSets c)
           \<and> map (\<lambda>r. (id' r, hash r)) out' = map (\<lambda>r. (id' r, hash r)) out"
proof -
  let ?key = "\<lambda>s. (OnlineID s, fromRealm (BeatmapSet.Hash s))"
  let ?out = "map (\<lambda>s. fst (extractSet env s)) (beatmapSets c)"
  let ?out' = "map (\<lambda>s. fst (extractSet env s)) (beatmapSets c')"
  have res: "fst (getAsBeatmapData env db) = Inr ?out"
    using assms(1,2) by (rule getAsBeatmapData_data)
  have res': "fst (getAsBeatmapData env db') = Inr ?out'"
    using assms(3,4) by (rule getAsBeatmapData_data)
  have k: "map (\<lambda>r. (id' r, hash r)) ?out = map ?key (beatmapSets c)"
    by (simp add: extractSet_set_level)
  have k': "map (\<lambda>r. (id' r, hash r)) ?out' = map ?key (beatmapSets c')"
    by (simp add: extractSet_set_level)
  have same: "map ?key (beatmapSets c) = map ?key (beatmapSets c')"
    using assms(5) by (rule map_list_all2) simp
  from res res' k k' same show ?thesis
    by (intro exI [of _ ?out] exI [of _ ?out']) (simp only: simp_thms)
qed

theorem output_in_storage_order_witness:
  "(\<exists>out out'. fst (getAsBeatmapData exampleEnv orderDb) = Inr out
         \<and> fst (getAsBeatmapData exampleEnv swappedDb) = Inr out'
         \<and> map (\<lambda>r. (id' r, hash r)) out = [(43, Val ''def''), (42, Val ''abc'')]
         \<and> map (\<lambda>r. (id' r, hash r)) out' = [(43, Val ''def''), (42, Val ''abc'')])"
proof -
  let ?c = "\<lparr> isClosed = False, beatmapSets = [duoSet, trackSet] \<rparr>"
  let ?c' = "\<lparr> isClosed = False,
               beatmapSets = [duoSet\<lparr>Beatmaps := [otherBeatmap, trackBeatmap]\<rparr>,
                              trackSet\<lparr>Files := rev (Files trackSet)\<rparr>] \<rparr>"
  have h1: "connection orderDb = Some ?c"
    by (simp add: orderDb_def)
  have h2: "\<not> isClosed ?c"
    by simp
  have h3: "connection swappedDb = Some ?c'"
    by (simp add: swappedDb_def)
  have h4: "\<not> isClosed ?c'"
    by simp
  have h5: "list_all2
           (\<lambda>s s'. OnlineID s' = OnlineID s \<and> BeatmapSet.Hash s' = BeatmapSet.Hash s
                    \<and> mset (Beatmaps s') = mset (Beatmaps s)
                    \<and> mset (Files s') = mset (Files s))
           (beatmapSets ?c) (beatmapSets ?c')"
    by (simp add: duoSet_def trackSet_def)
  from output_in_storage_order [OF h1 h2 h3 h4 h5, of exampleEnv]
  obtain out out' where o: "fst (getAsBeatmapData exampleEnv orderDb) = Inr out"
      "fst (getAsBeatmapData exampleEnv swappedDb) = Inr out'"
      "map (\<lambda>r. (id' r, hash r)) out
         = map (\<lambda>s. (OnlineID s, fromRealm (BeatmapSet.Hash s))) (beatmapSets ?c)"
      "map (\<lambda>r. (id' r, hash r)) out' = map (\<lambda>r. (id' r, hash r)) out"
    by blast
  have v: "map (\<lambda>s. (OnlineID s, fromRealm (BeatmapSet.Hash s))) (beatmapSets ?c)
         = [(43, Val ''def''), (42, Val ''abc'')]"
    by (simp add: duoSet_def trackSet_def fromRealm_def)
  from o v have "fst (getAsBeatmapData exampleEnv orderDb) = Inr out
         \<and> fst (getAsBeatmapData exampleEnv swappedDb) = Inr out'
         \<and> map (\<lambda>r. (id' r, hash r)) out = [(43, Val ''def''), (42, Val ''abc'')]
         \<and> map (\<lambda>r. (id' r, hash r)) out' = [(43, Val ''def''), (42, Val ''abc'')]"
    by simp
  then show ?thesis
    by (intro exI [of _ out] exI [of _ out'])
qed

section \<open>Resolving a content hash\<close>

text \<open>
  Claim C7. For a content hash that is a string \<open>h\<close>, the search is issued for exactly the
  pattern made of \<^verbatim>\<open>join(appData, "osu", "files")\<close>, the first character of \<open>h\<close>, its
  first two characters and \<open>h\<close> itself, separated by slashes; every path that comes back
  has its backslashes replaced by forward slashes; and the record's path for an asset is
  the first path of the search made for that asset's hash (audio and background alike),
  these two searches being all the loop body does to the file system.
\<close>

theorem sharded_search:
  "globPaths env (Val h)
     = ([GlobCall (join env [appData env, ''osu'', ''files'']
                    @ ''/'' @ take 1 h @ ''/'' @ take 2 h @ ''/'' @ h)],
        map replaceBackslashes
          (glob env (join env [appData env, ''osu'', ''files'']
                      @ ''/'' @ take 1 h @ ''/'' @ take 2 h @ ''/'' @ h)))
   \<and> (\<forall>p \<in> set (snd (globPaths env (Val h))). CHR 0x5C \<notin> set p)
   \<and> audio_path (fst (extractSet env s))
       = at0 (snd (globPaths env (audio_hash (fst (extractSet env s)))))
   \<and> background_path (fst (extractSet env s))
       = at0 (snd (globPaths env (background_hash (fst (extractSet env s)))))
   \<and> snd (extractSet env s)
       = fst (globPaths env (audio_hash (fst (extractSet env s))))
         @ fst (globPaths env (background_hash (fst (extractSet env s))))"
proof -
  have a: "globPaths env (Val h)
     = ([GlobCall (join env [appData env, ''osu'', ''files'']
                    @ ''/'' @ take 1 h @ ''/'' @ take 2 h @ ''/'' @ h)],
        map replaceBackslashes
          (glob env (join env [appData env, ''osu'', ''files'']
                      @ ''/'' @ take 1 h @ ''/'' @ take 2 h @ ''/'' @ h)))"
    by (simp add: globPaths_def Let_def shardPattern_Val)
  have b: "\<forall>p \<in> set (snd (globPaths env (Val h))). CHR 0x5C \<notin> set p"
    by (auto simp: globPaths_def Let_def replaceBackslashes_free)
  have c: "snd (extractSet env s)
       = fst (globPaths env (audio_hash (fst (extractSet env s))))
         @ fst (globPaths env (background_hash (fst (extractSet env s))))"
    by (simp add: extractSet_events globPaths_def Let_def)
  from a b c extractSet_paths [of env s] show ?thesis
    by (intro conjI)
qed

theorem sharded_search_witness:
  "globPaths winEnv (Val ''deadbeef'')
     = ([GlobCall ''C:/Users/user/AppData/Roaming/osu/files/d/de/deadbeef''],
        [''C:/Users/user/AppData/Roaming/osu/files/d/de/deadbeef''])
   \<and> CHR 0x5C \<notin> set ''C:/Users/user/AppData/Roaming/osu/files/d/de/deadbeef''
   \<and> audio_hash (fst (extractSet winEnv trackSet)) = Val ''deadbeef''
   \<and> audio_path (fst (extractSet winEnv trackSet))
       = Val ''C:/Users/user/AppData/Roaming/osu/files/d/de/deadbeef''"
proof -
  note t = sharded_search [of winEnv "''deadbeef''" trackSet]
  have g: "globPaths winEnv (Val ''deadbeef'')
     = ([GlobCall ''C:/Users/user/AppData/Roaming/osu/files/d/de/deadbeef''],
        [''C:/Users/user/AppData/Roaming/osu/files/d/de/deadbeef''])"
    using t by (simp add: winEnv_def replaceBackslashes_def)
  have f: "CHR 0x5C \<notin> set ''C:/Users/user/AppData/Roaming/osu/files/d/de/deadbeef''"
    using t g by simp
  have h: "audio_hash (fst (extractSet winEnv trackSet)) = Val ''deadbeef''"
    by (simp add: extractSet_def Let_def case_prod_beta trackSet_def trackBeatmap_def
        trackMetadata_def findHash_def at0_def optChain_def fromRealm_def looseEq_def)
  have p: "audio_path (fst (extractSet winEnv trackSet))
       = Val ''C:/Users/user/AppData/Roaming/osu/files/d/de/deadbeef''"
    using t by (simp add: h g at0_def)
  from g f h p show ?thesis
    by (intro conjI)
qed

text \<open>
  Claim C4, as amended. Resolving an undefined content hash does not throw, but it does
  not short-circuit either: the optional chaining yields \<open>undefined\<close>, the template
  string renders it as the text "undefined", and one search is issued for the pattern
  \<^verbatim>\<open>join(appData, "osu", "files")\<close> followed by \<^verbatim>\<open>/undefined/undefined/undefined\<close>. The
  result is what that search finds, so it is empty exactly when nothing matches that
  pattern.
\<close>

theorem undefined_hash_search:
  "globPaths env Undefined
     = ([GlobCall (join env [appData env, ''osu'', ''files'']
                    @ ''/undefined/undefined/undefined'')],
        map replaceBackslashes
          (glob env (join env [appData env, ''osu'', ''files'']
                      @ ''/undefined/undefined/undefined'')))
   \<and> (snd (globPaths env Undefined) = [])
       = (glob env (join env [appData env, ''osu'', ''files'']
                     @ ''/undefined/undefined/undefined'') = [])"
  by (simp add: globPaths_def Let_def shardPattern_Undefined)

theorem undefined_hash_search_witness:
  "globPaths exampleEnv Undefined
     = ([GlobCall ''/home/user/.config/osu/files/undefined/undefined/undefined''], [])"
  using undefined_hash_search [of exampleEnv]
  by (simp add: exampleEnv_def)

text \<open>
  With a file at the literal path, the search for the undefined hash is issued and finds
  it.
\<close>

theorem undefined_hash_search_counterexample:
  "fst (globPaths strayEnv Undefined)
     = [GlobCall ''/home/user/.config/osu/files/undefined/undefined/undefined'']
   \<and> snd (globPaths strayEnv Undefined)
     = [''/home/user/.config/osu/files/undefined/undefined/undefined'']
   \<and> globCalls (fst (globPaths strayEnv Undefined)) \<noteq> []
   \<and> snd (globPaths strayEnv Undefined) \<noteq> []"
  by (simp add: globPaths_def Let_def shardPattern_Undefined strayEnv_def replaceBackslashes_def)

section \<open>The end-to-end scenario\<close>

text \<open>
  Claim C2. A store with exactly one set (online id 42, hash "abc") that has one beatmap
  (length 180.5, BPM 174) whose metadata names the audio file "track.mp3" and the
  background file "bg.jpg", and two file usages that give those names the hashes
  "deadbeef" and "f00dface"; the search finds the file \<open>d/de/deadbeef\<close> under the files
  directory and finds nothing for "f00dface". Extraction returns exactly one record, with
  id 42, hash "abc", total_time 180.5, bpm 174, audio "track.mp3", audio_hash "deadbeef",
  audio_path that file, background "bg.jpg", background_hash "f00dface" and an undefined
  background_path.
\<close>

theorem end_to_end_scenario:
  assumes "connection db = Some c" and "\<not> isClosed c" and "beatmapSets c = [s]"
    and "OnlineID s = 42" and "BeatmapSet.Hash s = Some ''abc''"
    and "Beatmaps s = [b]" and "Length b = 180.5" and "BPM b = 174"
    and "AudioFile (Metadata b) = Some ''track.mp3''"
    and "BackgroundFile (Metadata b) = Some ''bg.jpg''"
    and "Files s = [\<lparr> File = \<lparr> File.Hash = Some ''deadbeef'' \<rparr>, Filename = Some ''track.mp3'' \<rparr>,
                    \<lparr> File = \<lparr> File.Hash = Some ''f00dface'' \<rparr>, Filename = Some ''bg.jpg'' \<rparr>]"
    and "filesDir = join env [appData env, ''osu'', ''files'']"
    and "CHR 0x5C \<notin> set filesDir"
    and "glob env (filesDir @ ''/d/de/deadbeef'') = [filesDir @ ''/d/de/deadbeef'']"
    and "glob env (filesDir @ ''/f/f0/f00dface'') = []"
  shows "\<exists>r. fst (getAsBeatmapData env db) = Inr [r]
           \<and> id' r = 42 \<and> hash r = Val ''abc''
           \<and> total_time r = Val 180.5 \<and> bpm r = Val 174
           \<and> audio r = Val ''track.mp3'' \<and> audio_hash r = Val ''deadbeef''
           \<and> audio_path r = Val (filesDir @ ''/d/de/deadbeef'')
           \<and> background r = Val ''bg.jpg'' \<and> background_hash r = Val ''f00dface''
           \<and> background_path r = Undefined"
proof -
  let ?r = "fst (extractSet env s)"
  have res: "fst (getAsBeatmapData env db) = Inr [?r]"
    using getAsBeatmapData_data [OF assms(1,2), of env] assms(3) by simp
  have ah: "audio_hash ?r = Val ''deadbeef''"
    using assms(6,9,11)
    by (simp add: extractSet_hashes findHash_def at0_def optChain_def fromRealm_def looseEq_def)
  have bh: "background_hash ?r = Val ''f00dface''"
    using assms(6,10,11)
    by (simp add: extractSet_hashes findHash_def at0_def optChain_def fromRealm_def looseEq_def)
  have ap: "audio_path ?r = Val (filesDir @ ''/d/de/deadbeef'')"
    using assms(12-14)
    by (simp add: extractSet_paths ah globPaths_def Let_def shardPattern_Val at0_def
        replaceBackslashes_id)
  have bp: "background_path ?r = Undefined"
    using assms(12,15)
    by (simp add: extractSet_paths bh globPaths_def Let_def shardPattern_Val at0_def)
  have f: "total_time ?r = Val 180.5" "bpm ?r = Val 174"
      "audio ?r = Val ''track.mp3''" "background ?r = Val ''bg.jpg''"
    using extractSet_first [OF assms(6), of env] assms(7-10)
    by (simp_all add: fromRealm_def)
  have k: "id' ?r = 42" "hash ?r = Val ''abc''"
    using assms(4,5) by (simp_all add: extractSet_set_level fromRealm_def)
  from res ah bh ap bp f k show ?thesis
    by (intro exI [of _ ?r] conjI)
qed

theorem end_to_end_scenario_witness:
  "\<exists>r. getAsBeatmapData exampleEnv trackDb
         = (Inr [r],
            [GlobCall ''/home/user/.config/osu/files/d/de/deadbeef'',
             GlobCall ''/home/user/.config/osu/files/f/f0/f00dface'',
             ConsoleLog ''Loaded: Song''])
       \<and> id' r = 42 \<and> hash r = Val ''abc''
       \<and> total_time r = Val 180.5 \<and> bpm r = Val 174
       \<and> audio r = Val ''track.mp3'' \<and> audio_hash r = Val ''deadbeef''
       \<and> audio_path r = Val ''/home/user/.config/osu/files/d/de/deadbeef''
       \<and> background r = Val ''bg.jpg'' \<and> background_hash r = Val ''f00dface''
       \<and> background_path r = Undefined"
proof -
  let ?c = "\<lparr> isClosed = False, beatmapSets = [trackSet] \<rparr>"
  let ?dir = "''/home/user/.config/osu/files''"
  have h1: "connection trackDb = Some ?c"
    by (simp add: trackDb_def)
  have h2: "\<not> isClosed ?c"
    by simp
  have h3: "beatmapSets ?c = [trackSet]"
    by simp
  have h4: "OnlineID trackSet = 42" and h5: "BeatmapSet.Hash trackSet = Some ''abc''"
    and h6: "Beatmaps trackSet = [trackBeatmap]"
    and h11: "Files trackSet
      = [\<lparr> File = \<lparr> File.Hash = Some ''deadbeef'' \<rparr>, Filename = Some ''track.mp3'' \<rparr>,
         \<lparr> File = \<lparr> File.Hash = Some ''f00dface'' \<rparr>, Filename = Some ''bg.jpg'' \<rparr>]"
    by (simp_all add: trackSet_def)
  have h7: "Length trackBeatmap = 180.5" and h8: "BPM trackBeatmap = 174"
    and h9: "AudioFile (Metadata trackBeatmap) = Some ''track.mp3''"
    and h10: "BackgroundFile (Metadata trackBeatmap) = Some ''bg.jpg''"
    by (simp_all add: trackBeatmap_def trackMetadata_def)
  have h12: "?dir = join exampleEnv [appData exampleEnv, ''osu'', ''files'']"
    by (simp add: exampleEnv_def)
  have h13: "CHR 0x5C \<notin> set ?dir"
    by simp
  have h14: "glob exampleEnv (?dir @ ''/d/de/deadbeef'') = [?dir @ ''/d/de/deadbeef'']"
    by (simp add: exampleEnv_def)
  have h15: "glob exampleEnv (?dir @ ''/f/f0/f00dface'') = []"
    by (simp add: exampleEnv_def)
  from end_to_end_scenario [OF h1 h2 h3 h4 h5 h6 h7 h8 h9 h10 h11 h12 h13 h14 h15]
  obtain r where r: "fst (getAsBeatmapData exampleEnv trackDb) = Inr [r]"
      "id' r = 42" "hash r = Val ''abc''" "total_time r = Val 180.5" "bpm r = Val 174"
      "audio r = Val ''track.mp3''" "audio_hash r = Val ''deadbeef''"
      "audio_path r = Val (?dir @ ''/d/de/deadbeef'')"
      "background r = Val ''bg.jpg''" "background_hash r = Val ''f00dface''"
      "background_path r = Undefined"
    by blast
  have ev: "snd (getAsBeatmapData exampleEnv trackDb)
       = [GlobCall ''/home/user/.config/osu/files/d/de/deadbeef'',
          GlobCall ''/home/user/.config/osu/files/f/f0/f00dface'',
          ConsoleLog ''Loaded: Song'']"
    using r(7,10) extractSet_first(3) [OF h6, of exampleEnv] r(1)
    by (simp add: getAsBeatmapData_def trackDb_def objects_def case_prod_beta Let_def
        extractSet_events shardPattern_Val sendDebugData_def exampleEnv_def
        getAsBeatmapData_data forOf_data trackBeatmap_def trackMetadata_def fromRealm_def
        templateStr_def)
  have "getAsBeatmapData exampleEnv trackDb
         = (Inr [r],
            [GlobCall ''/home/user/.config/osu/files/d/de/deadbeef'',
             GlobCall ''/home/user/.config/osu/files/f/f0/f00dface'',
             ConsoleLog ''Loaded: Song''])"
    using r(1) ev by (simp add: prod_eq_iff)
  with r(2-) show ?thesis
    by (intro exI [of _ r]) simp
qed

section \<open>Missing data\<close>

text \<open>
  Claim C3, as amended. A pass over an open connection never fails and yields one record
  per stored set. Where a set has no beatmaps, the fields read from the primary beatmap
  (artist, title, their Unicode variants, tags, total_time, bpm and the audio and
  background file names) are undefined. Where no file usage has a name equal (by \<^verbatim>\<open>==\<close>,
  under which \<open>null\<close> and \<open>undefined\<close> are equal) to the audio name, the audio hash is
  undefined and the audio path is the first match of the search for the undefined hash,
  which is the search for the literal pattern ending in
  \<^verbatim>\<open>/undefined/undefined/undefined\<close>; the path is undefined whenever that search finds
  nothing. The same holds for the background.
\<close>

theorem soft_gaps:
  assumes "connection db = Some c" and "\<not> isClosed c"
  shows "\<exists>out. fst (getAsBeatmapData env db) = Inr out
           \<and> length out = length (beatmapSets c)
           \<and> (\<forall>i < length (beatmapSets c).
                 (Beatmaps (beatmapSets c ! i) = [] \<longrightarrow>
                    artist (out ! i) = Undefined \<and> artist_unicode (out ! i) = Undefined
                    \<and> title (out ! i) = Undefined \<and> title_unicode (out ! i) = Undefined
                    \<and> tags (out ! i) = Undefined \<and> total_time (out ! i) = Undefined
                    \<and> bpm (out ! i) = Undefined \<and> audio (out ! i) = Undefined
                    \<and> background (out ! i) = Undefined)
               \<and> ((\<forall>f \<in> set (Files (beatmapSets c ! i)).
                      \<not> looseEq (fromRealm (Filename f))
                          (optChain (at0 (Beatmaps (beatmapSets c ! i)))
                             (\<lambda>b. fromRealm (AudioFile (Metadata b))))) \<longrightarrow>
                    audio_hash (out ! i) = Undefined
                    \<and> audio_path (out ! i) = at0 (snd (globPaths env Undefined))
                    \<and> (glob env (join env [appData env, ''osu'', ''files'']
                                   @ ''/undefined/undefined/undefined'') = [] \<longrightarrow>
                         audio_path (out ! i) = Undefined))
               \<and> ((\<forall>f \<in> set (Files (beatmapSets c ! i)).
                      \<not> looseEq (fromRealm (Filename f))
                          (optChain (at0 (Beatmaps (beatmapSets c ! i)))
                             (\<lambda>b. fromRealm (BackgroundFile (Metadata b))))) \<longrightarrow>
                    background_hash (out ! i) = Undefined
                    \<and> background_path (out ! i) = at0 (snd (globPaths env Undefined))
                    \<and> (glob env (join env [appData env, ''osu'', ''files'']
                                   @ ''/undefined/undefined/undefined'') = [] \<longrightarrow>
                         background_path (out ! i) = Undefined)))"
proof -
  let ?sets = "beatmapSets c"
  let ?out = "map (\<lambda>s. fst (extractSet env s)) ?sets"
  have res: "fst (getAsBeatmapData env db) = Inr ?out"
    using assms by (rule getAsBeatmapData_data)
  have len: "length ?out = length ?sets"
    by simp
  have per: "\<forall>i < length ?sets.
                 (Beatmaps (?sets ! i) = [] \<longrightarrow>
                    artist (?out ! i) = Undefined \<and> artist_unicode (?out ! i) = Undefined
                    \<and> title (?out ! i) = Undefined \<and> title_unicode (?out ! i) = Undefined
                    \<and> tags (?out ! i) = Undefined \<and> total_time (?out ! i) = Undefined
                    \<and> bpm (?out ! i) = Undefined \<and> audio (?out ! i) = Undefined
                    \<and> background (?out ! i) = Undefined)
               \<and> ((\<forall>f \<in> set (Files (?sets ! i)).
                      \<not> looseEq (fromRealm (Filename f))
                          (optChain (at0 (Beatmaps (?sets ! i)))
                             (\<lambda>b. fromRealm (AudioFile (Metadata b))))) \<longrightarrow>
                    audio_hash (?out ! i) = Undefined
                    \<and> audio_path (?out ! i) = at0 (snd (globPaths env Undefined))
                    \<and> (glob env (join env [appData env, ''osu'', ''files'']
                                   @ ''/undefined/undefined/undefined'') = [] \<longrightarrow>
                         audio_path (?out ! i) = Undefined))
               \<and> ((\<forall>f \<in> set (Files (?sets ! i)).
                      \<not> looseEq (fromRealm (Filename f))
                          (optChain (at0 (Beatmaps (?sets ! i)))
                             (\<lambda>b. fromRealm (BackgroundFile (Metadata b))))) \<longrightarrow>
                    background_hash (?out ! i) = Undefined
                    \<and> background_path (?out ! i) = at0 (snd (globPaths env Undefined))
                    \<and> (glob env (join env [appData env, ''osu'', ''files'']
                                   @ ''/undefined/undefined/undefined'') = [] \<longrightarrow>
                         background_path (?out ! i) = Undefined))"
  proof (intro allI impI)
    fix i
    assume i: "i < length ?sets"
    let ?s = "?sets ! i"
    have at: "?out ! i = fst (extractSet env ?s)"
      using i by simp
    have a: "Beatmaps ?s = [] \<longrightarrow>
                    artist (?out ! i) = Undefined \<and> artist_unicode (?out ! i) = Undefined
                    \<and> title (?out ! i) = Undefined \<and> title_unicode (?out ! i) = Undefined
                    \<and> tags (?out ! i) = Undefined \<and> total_time (?out ! i) = Undefined
                    \<and> bpm (?out ! i) = Undefined \<and> audio (?out ! i) = Undefined
                    \<and> background (?out ! i) = Undefined"
      unfolding at by (simp add: extractSet_empty)
    have b: "(\<forall>f \<in> set (Files ?s).
                      \<not> looseEq (fromRealm (Filename f))
                          (optChain (at0 (Beatmaps ?s))
                             (\<lambda>b. fromRealm (AudioFile (Metadata b))))) \<longrightarrow>
                    audio_hash (?out ! i) = Undefined
                    \<and> audio_path (?out ! i) = at0 (snd (globPaths env Undefined))
                    \<and> (glob env (join env [appData env, ''osu'', ''files'']
                                   @ ''/undefined/undefined/undefined'') = [] \<longrightarrow>
                         audio_path (?out ! i) = Undefined)"
      unfolding at
      by (simp add: extractSet_paths extractSet_hashes findHash_none globPaths_Undefined_empty)
    have c: "(\<forall>f \<in> set (Files ?s).
                      \<not> looseEq (fromRealm (Filename f))
                          (optChain (at0 (Beatmaps ?s))
                             (\<lambda>b. fromRealm (BackgroundFile (Metadata b))))) \<longrightarrow>
                    background_hash (?out ! i) = Undefined
                    \<and> background_path (?out ! i) = at0 (snd (globPaths env Undefined))
                    \<and> (glob env (join env [appData env, ''osu'', ''files'']
                                   @ ''/undefined/undefined/undefined'') = [] \<longrightarrow>
                         background_path (?out ! i) = Undefined)"
      unfolding at
      by (simp add: extractSet_paths extractSet_hashes findHash_none globPaths_Undefined_empty)
    from a b c show "(Beatmaps ?s = [] \<longrightarrow>
                    artist (?out ! i) = Undefined \<and> artist_unicode (?out ! i) = Undefined
                    \<and> title (?out ! i) = Undefined \<and> title_unicode (?out ! i) = Undefined
                    \<and> tags (?out ! i) = Undefined \<and> total_time (?out ! i) = Undefined
                    \<and> bpm (?out ! i) = Undefined \<and> audio (?out ! i) = Undefined
                    \<and> background (?out ! i) = Undefined)
               \<and> ((\<forall>f \<in> set (Files ?s).
                      \<not> looseEq (fromRealm (Filename f))
                          (optChain (at0 (Beatmaps ?s))
                             (\<lambda>b. fromRealm (AudioFile (Metadata b))))) \<longrightarrow>
                    audio_hash (?out ! i) = Undefined
                    \<and> audio_path (?out ! i) = at0 (snd (globPaths env Undefined))
                    \<and> (glob env (join env [appData env, ''osu'', ''files'']
                                   @ ''/undefined/undefined/undefined'') = [] \<longrightarrow>
                         audio_path (?out ! i) = Undefined))
               \<and> ((\<forall>f \<in> set (Files ?s).
                      \<not> looseEq (fromRealm (Filename f))
                          (optChain (at0 (Beatmaps ?s))
                             (\<lambda>b. fromRealm (BackgroundFile (Metadata b))))) \<longrightarrow>
                    background_hash (?out ! i) = Undefined
                    \<and> background_path (?out ! i) = at0 (snd (globPaths env Undefined))
                    \<and> (glob env (join env [appData env, ''osu'', ''files'']
                                   @ ''/undefined/undefined/undefined'') = [] \<longrightarrow>
                         background_path (?out ! i) = Undefined))"
      by (intro conjI)
  qed
  from res len per show ?thesis
    by (intro exI [of _ ?out] conjI)
qed

theorem soft_gaps_witness:
  "connection gapDb = Some \<lparr> isClosed = False, beatmapSets = [gapSet] \<rparr>
   \<and> Beatmaps gapSet = [] \<and> Files gapSet = []
   \<and> glob exampleEnv ''/home/user/.config/osu/files/undefined/undefined/undefined'' = []
   \<and> (\<exists>out. fst (getAsBeatmapData exampleEnv gapDb) = Inr out \<and> length out = 1
         \<and> artist (out ! 0) = Undefined \<and> artist_unicode (out ! 0) = Undefined
         \<and> title (out ! 0) = Undefined \<and> title_unicode (out ! 0) = Undefined
         \<and> tags (out ! 0) = Undefined \<and> total_time (out ! 0) = Undefined
         \<and> bpm (out ! 0) = Undefined \<and> audio (out ! 0) = Undefined
         \<and> background (out ! 0) = Undefined
         \<and> audio_hash (out ! 0) = Undefined \<and> audio_path (out ! 0) = Undefined
         \<and> background_hash (out ! 0) = Undefined \<and> background_path (out ! 0) = Undefined)"
proof -
  let ?c = "\<lparr> isClosed = False, beatmapSets = [gapSet] \<rparr>"
  have h1: "connection gapDb = Some ?c"
    by (simp add: gapDb_def)
  have h2: "\<not> isClosed ?c"
    by simp
  have g1: "Beatmaps gapSet = []" and g2: "Files gapSet = []"
    by (simp_all add: gapSet_def)
  have g3: "glob exampleEnv ''/home/user/.config/osu/files/undefined/undefined/undefined'' = []"
    by (simp add: exampleEnv_def)
  have g4: "join exampleEnv [appData exampleEnv, ''osu'', ''files'']
              @ ''/undefined/undefined/undefined''
            = ''/home/user/.config/osu/files/undefined/undefined/undefined''"
    by (simp add: exampleEnv_def)
  from soft_gaps [OF h1 h2, of exampleEnv]
  obtain out where res: "fst (getAsBeatmapData exampleEnv gapDb) = Inr out"
    and len: "length out = length (beatmapSets ?c)"
    and per: "\<forall>i < length (beatmapSets ?c).
                 (Beatmaps (beatmapSets ?c ! i) = [] \<longrightarrow>
                    artist (out ! i) = Undefined \<and> artist_unicode (out ! i) = Undefined
                    \<and> title (out ! i) = Undefined \<and> title_unicode (out ! i) = Undefined
                    \<and> tags (out ! i) = Undefined \<and> total_time (out ! i) = Undefined
                    \<and> bpm (out ! i) = Undefined \<and> audio (out ! i) = Undefined
                    \<and> background (out ! i) = Undefined)
               \<and> ((\<forall>f \<in> set (Files (beatmapSets ?c ! i)).
                      \<not> looseEq (fromRealm (Filename f))
                          (optChain (at0 (Beatmaps (beatmapSets ?c ! i)))
                             (\<lambda>b. fromRealm (AudioFile (Metadata b))))) \<longrightarrow>
                    audio_hash (out ! i) = Undefined
                    \<and> audio_path (out ! i) = at0 (snd (globPaths exampleEnv Undefined))
                    \<and> (glob exampleEnv (join exampleEnv [appData exampleEnv, ''osu'', ''files'']
                                   @ ''/undefined/undefined/undefined'') = [] \<longrightarrow>
                         audio_path (out ! i) = Undefined))
               \<and> ((\<forall>f \<in> set (Files (beatmapSets ?c ! i)).
                      \<not> looseEq (fromRealm (Filename f))
                          (optChain (at0 (Beatmaps (beatmapSets ?c ! i)))
                             (\<lambda>b. fromRealm (BackgroundFile (Metadata b))))) \<longrightarrow>
                    background_hash (out ! i) = Undefined
                    \<and> background_path (out ! i) = at0 (snd (globPaths exampleEnv Undefined))
                    \<and> (glob exampleEnv (join exampleEnv [appData exampleEnv, ''osu'', ''files'']
                                   @ ''/undefined/undefined/undefined'') = [] \<longrightarrow>
                         background_path (out ! i) = Undefined))"
    by (elim exE conjE)
  from per [rule_format, of 0] g1 g2 g3
  have fields: "artist (out ! 0) = Undefined \<and> artist_unicode (out ! 0) = Undefined
         \<and> title (out ! 0) = Undefined \<and> title_unicode (out ! 0) = Undefined
         \<and> tags (out ! 0) = Undefined \<and> total_time (out ! 0) = Undefined
         \<and> bpm (out ! 0) = Undefined \<and> audio (out ! 0) = Undefined
         \<and> background (out ! 0) = Undefined
         \<and> audio_hash (out ! 0) = Undefined \<and> audio_path (out ! 0) = Undefined
         \<and> background_hash (out ! 0) = Undefined \<and> background_path (out ! 0) = Undefined"
    by (auto simp: g4)
  from len have len1: "length out = 1"
    by simp
  from res len1 fields
  have "\<exists>out. fst (getAsBeatmapData exampleEnv gapDb) = Inr out \<and> length out = 1
         \<and> artist (out ! 0) = Undefined \<and> artist_unicode (out ! 0) = Undefined
         \<and> title (out ! 0) = Undefined \<and> title_unicode (out ! 0) = Undefined
         \<and> tags (out ! 0) = Undefined \<and> total_time (out ! 0) = Undefined
         \<and> bpm (out ! 0) = Undefined \<and> audio (out ! 0) = Undefined
         \<and> background (out ! 0) = Undefined
         \<and> audio_hash (out ! 0) = Undefined \<and> audio_path (out ! 0) = Undefined
         \<and> background_hash (out ! 0) = Undefined \<and> background_path (out ! 0) = Undefined"
    by (intro exI [of _ out] conjI) simp_all
  with h1 g1 g2 g3 show ?thesis
    by (intro conjI)
qed

text \<open>
  With a file at the literal path, a set without beatmaps and without files gets defined
  audio and background paths although both hashes are undefined.
\<close>

theorem soft_gaps_counterexample:
  "fst (getAsBeatmapData strayEnv gapDb)
     = Inr [\<lparr> id' = 7, artist = Undefined, artist_unicode = Undefined, title = Undefined,
              title_unicode = Undefined, hash = Null, audio = Undefined,
              audio_hash = Undefined,
              audio_path = Val ''/home/user/.config/osu/files/undefined/undefined/undefined'',
              background = Undefined, background_hash = Undefined,
              background_path = Val ''/home/user/.config/osu/files/undefined/undefined/undefined'',
              tags = Undefined, total_time = Undefined, bpm = Undefined \<rparr>]"
proof -
  have "connection gapDb = Some \<lparr> isClosed = False, beatmapSets = [gapSet] \<rparr>"
    by (simp add: gapDb_def)
  then have "fst (getAsBeatmapData strayEnv gapDb) = Inr [fst (extractSet strayEnv gapSet)]"
    by (simp add: getAsBeatmapData_data)
  moreover have "fst (extractSet strayEnv gapSet)
     = \<lparr> id' = 7, artist = Undefined, artist_unicode = Undefined, title = Undefined,
              title_unicode = Undefined, hash = Null, audio = Undefined,
              audio_hash = Undefined,
              audio_path = Val ''/home/user/.config/osu/files/undefined/undefined/undefined'',
              background = Undefined, background_hash = Undefined,
              background_path = Val ''/home/user/.config/osu/files/undefined/undefined/undefined'',
              tags = Undefined, total_time = Undefined, bpm = Undefined \<rparr>"
    by (simp add: extractSet_def Let_def case_prod_beta gapSet_def findHash_def at0_def
        optChain_def fromRealm_def globPaths_def shardPattern_Undefined strayEnv_def
        replaceBackslashes_def)
  ultimately show ?thesis
    by simp
qed

section \<open>Progress cadence\<close>

text \<open>
  Claim C5, as amended. On an instance with a window attached, a pass over \<open>N\<close> sets
  sends exactly \<open>N div 50\<close> progress notifications followed by exactly one final
  "Data loaded."; the k-th progress notification carries the counter value \<open>50 * k\<close>
  (so the values are the multiples of 50 in increasing order), the title of the record
  just extracted and \<open>N\<close>. These are all the messages the pass sends, each on the channel
  \<open>debug-data\<close>.
\<close>

theorem progress_cadence:
  assumes "connection db = Some c" and "\<not> isClosed c" and "window db = Some w"
  shows "debugData (snd (getAsBeatmapData env db))
           = map (\<lambda>k. loadingText (title (fst (extractSet env (beatmapSets c ! (50 * k - 1)))))
                         (50 * k) (length (beatmapSets c)))
                 [1 ..< Suc (length (beatmapSets c) div 50)]
             @ [''Data loaded.'']
       \<and> length (debugData (snd (getAsBeatmapData env db))) = length (beatmapSets c) div 50 + 1
       \<and> filter isIpcSend (snd (getAsBeatmapData env db))
           = map (IpcSend w ''debug-data'') (debugData (snd (getAsBeatmapData env db)))"
proof -
  let ?sets = "beatmapSets c"
  let ?N = "length ?sets"
  let ?loop = "snd (forOf env db ?N ?sets 0 [])"
  have ev: "snd (getAsBeatmapData env db) = ?loop @ sendDebugData db ''Data loaded.''"
    using assms(1,2) by (simp add: getAsBeatmapData_def objects_def case_prod_beta)
  have "debugData ?loop
      = map (\<lambda>j. loadingText (title (fst (extractSet env (?sets ! (j - Suc 0))))) j ?N)
          (filter (\<lambda>j. j mod 50 = 0) [Suc 0 ..< Suc (0 + ?N)])"
    using assms(3) by (rule forOf_debugData)
  also have "\<dots> = map (\<lambda>j. loadingText (title (fst (extractSet env (?sets ! (j - Suc 0))))) j ?N)
          (map (\<lambda>k. 50 * k) [Suc 0 ..< Suc (?N div 50)])"
    by (simp only: multiples_of_50 add_0)
  also have "\<dots> = map (\<lambda>k. loadingText (title (fst (extractSet env (?sets ! (50 * k - 1)))))
                         (50 * k) ?N) [1 ..< Suc (?N div 50)]"
    by (simp add: o_def)
  finally have loop: "debugData ?loop
      = map (\<lambda>k. loadingText (title (fst (extractSet env (?sets ! (50 * k - 1)))))
                         (50 * k) ?N) [1 ..< Suc (?N div 50)]" .
  have a: "debugData (snd (getAsBeatmapData env db))
           = map (\<lambda>k. loadingText (title (fst (extractSet env (?sets ! (50 * k - 1)))))
                         (50 * k) ?N) [1 ..< Suc (?N div 50)]
             @ [''Data loaded.'']"
    using assms(3) by (simp add: ev debugData_append loop debugData_sendDebugData)
  have b: "length (debugData (snd (getAsBeatmapData env db))) = ?N div 50 + 1"
    by (simp add: a)
  have c: "filter isIpcSend (snd (getAsBeatmapData env db))
           = map (IpcSend w ''debug-data'') (debugData (snd (getAsBeatmapData env db)))"
    using assms(3)
    by (simp add: ev debugData_append forOf_sends sendDebugData_sends)
  from a b c show ?thesis
    by (intro conjI)
qed

theorem progress_cadence_witness:
  "connection fiftyDb = Some \<lparr> isClosed = False, beatmapSets = replicate 50 gapSet \<rparr>
   \<and> window fiftyDb = Some (BrowserWindow 1)
   \<and> debugData (snd (getAsBeatmapData exampleEnv fiftyDb))
       = [''Loading: undefined (50 / 50)'', ''Data loaded.'']
   \<and> filter isIpcSend (snd (getAsBeatmapData exampleEnv fiftyDb))
       = [IpcSend (BrowserWindow 1) ''debug-data'' ''Loading: undefined (50 / 50)'',
          IpcSend (BrowserWindow 1) ''debug-data'' ''Data loaded.'']"
proof -
  let ?c = "\<lparr> isClosed = False, beatmapSets = replicate 50 gapSet \<rparr>"
  have h1: "connection fiftyDb = Some ?c"
    by (simp add: fiftyDb_def)
  have h2: "\<not> isClosed ?c"
    by simp
  have h3: "window fiftyDb = Some (BrowserWindow 1)"
    by (simp add: fiftyDb_def)
  have t: "title (fst (extractSet exampleEnv gapSet)) = Undefined"
    by (rule extractSet_empty) (simp add: gapSet_def)
  have l: "loadingText Undefined 50 50 = ''Loading: undefined (50 / 50)''"
    by (simp add: loadingText_def templateStr_def string_of_nat_50)
  have u: "[1 ..< Suc (length (beatmapSets ?c) div 50)] = [1]"
    by (simp add: upt_rec)
  have d: "debugData (snd (getAsBeatmapData exampleEnv fiftyDb))
       = [''Loading: undefined (50 / 50)'', ''Data loaded.'']"
    using progress_cadence [OF h1 h2 h3, of exampleEnv]
    by (simp only: u list.map mult_1_right) (simp add: t l)
  have s: "filter isIpcSend (snd (getAsBeatmapData exampleEnv fiftyDb))
       = [IpcSend (BrowserWindow 1) ''debug-data'' ''Loading: undefined (50 / 50)'',
          IpcSend (BrowserWindow 1) ''debug-data'' ''Data loaded.'']"
    using progress_cadence [OF h1 h2 h3, of exampleEnv]
    by (simp only: d list.map)
  from h1 h3 d s show ?thesis
    by (intro conjI)
qed

text \<open>
  The instance that \<open>open\<close> returns when no window is passed, on a store without sets:
  the pass succeeds and sends nothing, not even the final notification.
\<close>

theorem progress_cadence_counterexample:
  "fst (open' exampleEnv ''client.realm'' None) = Inr openedDb
   \<and> connection openedDb = Some \<lparr> isClosed = False, beatmapSets = [] \<rparr>
   \<and> getAsBeatmapData exampleEnv openedDb = (Inr [], [])
   \<and> debugData (snd (getAsBeatmapData exampleEnv openedDb)) = []"
  by (simp add: openedDb_def exampleRealm_def getAsBeatmapData_def objects_def sendDebugData_def
      open'_def constructor_def exampleEnv_def)

end
